theory Spec2Isabelle
  imports Main
begin

section \<open>Data model of the simple-transaction negotiation driver\<close>

text \<open>
  The development embeds \<^verbatim>\<open>SimpleTransaction\<close> (the negotiation driver of a "simple"
  value transfer), its \<^verbatim>\<open>Creator\<close> and the default shapes of \<^verbatim>\<open>IPrivateKeyKeeper2\<close>.
  Amounts, heights, timestamps and asset ids are unsigned machine integers that the
  driver only copies and compares with zero; they are natural numbers here.
\<close>

type_synonym Amount = nat
type_synonym Height = nat
type_synonym Timestamp = nat
type_synonym AmountList = "Amount list"
type_synonym KernelID = nat

text \<open>
  Negotiation sub-state. The enumeration is declared in the driver's header; the values
  are the five the driver uses, in the order in which the protocol passes through them.
\<close>

datatype State =
    State_Initial
  | State_Invitation
  | State_InvitationConfirmation
  | State_Registration
  | State_KernelConfirmation

datatype TxStatus =
    TxStatus_Pending
  | TxStatus_InProgress
  | TxStatus_Canceled
  | TxStatus_Completed
  | TxStatus_Failed
  | TxStatus_Registering

text \<open>
  The node's verdict on a submitted transaction (\<^verbatim>\<open>proto::TxStatus\<close>), stored as one byte.
  The named codes are those of the spec; \<open>proto_Other\<close> is any other byte.
\<close>

datatype proto_TxStatus =
    proto_Unspecified
  | proto_Ok
  | proto_InvalidContext
  | proto_InvalidInput
  | proto_LowFee
  | proto_TooLarge
  | proto_Other nat

datatype TxFailureReason =
    TxFailureReason_NoInputs
  | TxFailureReason_Canceled
  | TxFailureReason_MaxHeightIsUnacceptable
  | TxFailureReason_InvalidPeerSignature
  | TxFailureReason_NoPaymentProof
  | TxFailureReason_InvalidKernelProof
  | TxFailureReason_FailedToSendParameters
  | TxFailureReason_FailedToRegister
  | TxFailureReason_InvalidTransaction
  | TxFailureReason_TransactionExpired
  | TxFailureReason_NotEnoughDataForProof
  | TxFailureReason_KeyKeeperError

subsection \<open>Symbolic cryptography\<close>

text \<open>
  Scalars, points and signatures are black boxes for the driver. They are terms of free
  datatypes: a key derived by a key-derivation function from a key id, the public key of a
  secret key, a Schnorr signature of a hash under a secret key.
\<close>

datatype ECC_Scalar =
    Scalar nat
  | DeriveKey nat nat  \<comment> \<open>\<^verbatim>\<open>kdf->DeriveKey(sk, Key::ID(ownID, Key::Type::Bbs))\<close>: kdf, own id\<close>

datatype ECC_Point =
    Point nat
  | Sk2Pk ECC_Scalar  \<comment> \<open>\<^verbatim>\<open>proto::Sk2Pk\<close>\<close>

datatype ECC_Hash =
    HashValue nat
  | PaymentConfirmation_Hash KernelID ECC_Point Amount
      \<comment> \<open>hash of the tag "PaymentConfirmation", the kernel id, the sender and the value\<close>

datatype ECC_Signature =
    Signature nat
  | Sign ECC_Hash ECC_Scalar  \<comment> \<open>\<^verbatim>\<open>Signature::Sign(hv, sk)\<close>\<close>

record WalletID =
  m_Channel :: nat
  m_Pk :: ECC_Point

text \<open>
  An address-book entry. Modelled from the spec: the address type and its methods
  \<^verbatim>\<open>isOwn\<close> and \<^verbatim>\<open>isExpired\<close> are declared outside the available sources; the spec gives
  an address a wallet id, an owner flag, a creation time, an expiry and a label. The
  record carries what the two methods answer when the driver asks.
\<close>

record WalletAddress =
  m_walletID :: WalletID
  m_label :: string
  m_createTime :: Timestamp
  m_OwnID :: nat
  own :: bool
  expired :: bool

definition isOwn :: "WalletAddress \<Rightarrow> bool" where
  "isOwn a = own a"

definition isExpired :: "WalletAddress \<Rightarrow> bool" where
  "isExpired a = expired a"

type_synonym AddressBook = "WalletID \<rightharpoonup> WalletAddress"

definition getAddress :: "AddressBook \<Rightarrow> WalletID \<Rightarrow> WalletAddress option" where
  "getAddress db wid = db wid"

definition saveAddress :: "AddressBook \<Rightarrow> WalletAddress \<Rightarrow> AddressBook" where
  "saveAddress db a = db(m_walletID a \<mapsto> a)"

subsection \<open>Parameter messages\<close>

datatype TxParameterID =
    TxParameterID_Amount
  | TxParameterID_Fee
  | TxParameterID_MinHeight
  | TxParameterID_Message
  | TxParameterID_MyID
  | TxParameterID_PeerID
  | TxParameterID_IsSender
  | TxParameterID_IsSelfTx
  | TxParameterID_Lifetime
  | TxParameterID_AssetID
  | TxParameterID_PeerProtoVersion
  | TxParameterID_PeerPublicExcess
  | TxParameterID_PeerPublicNonce
  | TxParameterID_PeerSignature
  | TxParameterID_PeerInputs
  | TxParameterID_PeerOutputs
  | TxParameterID_PeerOffset
  | TxParameterID_PeerMaxHeight
  | TxParameterID_PaymentConfirmation
  | TxParameterID_TransactionRegistered

text \<open>A serialized parameter value, tagged with the type it was serialized from.\<close>

datatype ParamValue =
    V_Amount Amount
  | V_Height Height
  | V_uint32 nat
  | V_bool bool
  | V_Point ECC_Point
  | V_Scalar ECC_Scalar
  | V_Signature ECC_Signature
  | V_Coins "nat list"
  | V_WalletID WalletID
  | V_ByteBuffer string
  | V_uint8 proto_TxStatus

text \<open>
  \<^verbatim>\<open>TxParameters\<close> is a map from parameter id to bytes; \<^verbatim>\<open>SetParameter\<close> overwrites an
  entry with the same id and returns the set, so calls chain.
\<close>

type_synonym TxParameters = "(TxParameterID \<times> ParamValue) list"

fun SetParameter :: "TxParameterID \<Rightarrow> ParamValue \<Rightarrow> TxParameters \<Rightarrow> TxParameters" where
  "SetParameter k v [] = [(k, v)]"
| "SetParameter k v ((k', v') # ps) =
     (if k' = k then (k, v) # ps else (k', v') # SetParameter k v ps)"

definition GetParameter :: "TxParameterID \<Rightarrow> TxParameters \<Rightarrow> ParamValue option" where
  "GetParameter k ps = map_of ps k"

subsection \<open>The transaction record\<close>

text \<open>
  The parameters of one transaction that the driver reads or writes, each with the type
  under which the driver stores it; \<open>None\<close> is a missing key.
\<close>

record TxRecord =
  State :: "State option"
  Status :: "TxStatus option"
  FailureReason :: "TxFailureReason option"
  IsSender :: "bool option"
  AmountList :: "AmountList option"
  Amount :: "Amount option"
  Fee :: "Amount option"
  PeerID :: "WalletID option"
  MyID :: "WalletID option"
  KernelID :: "KernelID option"
  PeerProtoVersion :: "nat option"
  PaymentConfirmation :: "ECC_Signature option"
  TransactionRegistered :: "proto_TxStatus option"
  KernelUnconfirmedHeight :: "Height option"
  KernelProofHeight :: "Height option"

text \<open>
  Calls that leave the driver, in program order: on the builder, on the base transaction
  and on the gateway. Builder calls that only load or read (\<^verbatim>\<open>Get...\<close>, \<^verbatim>\<open>Has...\<close>,
  \<^verbatim>\<open>Load...\<close>, \<^verbatim>\<open>Is...\<close>) are not recorded.
\<close>

datatype Call =
    Call_SelectInputs
  | Call_AddChange
  | Call_GenerateNonce
  | Call_GenerateAssetCoin Amount bool
  | Call_GenerateBeamCoin Amount bool
  | Call_CreateInputs
  | Call_CreateOutputs
  | Call_SignSender bool
  | Call_SignReceiver
  | Call_UpdateMaxHeight
  | Call_CreateKernel
  | Call_FinalizeSignature
  | Call_CreateTransaction
  | Call_UpdateTxDescription TxStatus
  | Call_OnFailed TxFailureReason bool
  | Call_CheckExpired
  | Call_UpdateOnNextTip
  | Call_SetCompletedTxCoinStatuses Height
  | Call_CompleteTx
  | Call_SendTxParameters TxParameters
  | Call_register_tx
  | Call_ConfirmKernel KernelID

text \<open>
  The transaction object: the persisted parameters, whether the shared builder instance
  exists yet, and the calls made so far.
\<close>

record SimpleTransaction =
  params :: TxRecord
  m_TxBuilder :: bool
  calls :: "Call list"

definition GetState :: "SimpleTransaction \<Rightarrow> State" where
  "GetState tx = (case State (params tx) of None \<Rightarrow> State_Initial | Some s \<Rightarrow> s)"

definition IsInSafety :: "SimpleTransaction \<Rightarrow> bool" where
  "IsInSafety tx = (let txState = GetState tx in txState = State_KernelConfirmation)"

subsection \<open>What the driver is given\<close>

text \<open>
  The transaction builder is a collaborator whose code is outside the driver. Its
  operations are re-entrant and the driver calls each at most once per update, so the
  builder enters as the answers it gives during one update: the boolean results (for the
  operations served by the key keeper, \<open>True\<close> means "still in progress") and the values
  of its getters.
\<close>

record BaseTxBuilder =
  LoadKernel :: bool
  HasKernelID :: bool
  GetInitialTxParams :: bool
  GetPeerPublicExcessAndNonce :: bool
  GetPeerSignature :: bool
  IsPeerSignatureValid :: bool
  CreateInputs :: bool
  CreateOutputs :: bool
  SignSender :: "bool \<Rightarrow> bool"
  SignReceiver :: bool
  UpdateMaxHeight :: bool
  TransactionIsValid :: bool
  GetAssetId :: nat
  GetAmountList :: AmountList
  GetAmount :: Amount
  GetFee :: Amount
  GetMinHeight :: Height
  GetLifetime :: Height
  GetMaxHeight :: Height
  GetPublicExcess :: ECC_Point
  GetPublicNonce :: ECC_Point
  GetPartialSignature :: ECC_Scalar
  GetInputs :: "nat list"
  GetOutputs :: "nat list"
  GetOffset :: ECC_Scalar
  GetKernelID :: KernelID

text \<open>The key keeper, as far as the driver uses it: the identity of its SBBS KDF.\<close>

record IPrivateKeyKeeper =
  get_SbbsKdf :: nat

text \<open>
  The environment of one update: the key keeper (absent in a public wallet), the address
  book, the builder, and the answers of the base transaction and of the transport.
  \<open>s_ProtoVersion\<close> is a constant of the driver declared in its header.
\<close>

record Env =
  m_KeyKeeper :: "IPrivateKeyKeeper option"
  m_WalletDB :: AddressBook
  builder :: BaseTxBuilder
  IsInitiator :: bool
  CheckExpired :: bool
  SendTxParameters_result :: bool
  s_ProtoVersion :: nat

datatype exception =
    MissingParameter TxParameterID
  | InvalidTransactionParametersException
  | AddressExpiredException

text \<open>How a piece of the driver ends: it falls through, returns, or throws.\<close>

datatype flow = Continue | Returned | Thrown exception

subsection \<open>Operations of the base transaction and of the gateway\<close>

definition call :: "Call \<Rightarrow> SimpleTransaction \<Rightarrow> SimpleTransaction" where
  "call c tx = tx\<lparr>calls := calls tx @ [c]\<rparr>"

definition SetState :: "State \<Rightarrow> SimpleTransaction \<Rightarrow> SimpleTransaction" where
  "SetState s tx = tx\<lparr>params := (params tx)\<lparr>State := Some s\<rparr>\<rparr>"

definition SetParameter_TransactionRegistered ::
  "proto_TxStatus \<Rightarrow> SimpleTransaction \<Rightarrow> SimpleTransaction" where
  "SetParameter_TransactionRegistered c tx =
     tx\<lparr>params := (params tx)\<lparr>TransactionRegistered := Some c\<rparr>\<rparr>"

text \<open>
  Modelled from the spec: \<^verbatim>\<open>UpdateTxDescription\<close>, \<^verbatim>\<open>OnFailed\<close> and \<^verbatim>\<open>CompleteTx\<close> belong
  to the base transaction, whose code is outside the driver. By the spec the first sets the
  status, the second moves the record to Failed and persists the reason, the third
  completes the record. Each is also recorded as a call, with its arguments. The other
  operations of the base transaction and of the gateway (\<^verbatim>\<open>CheckExpired\<close>,
  \<^verbatim>\<open>UpdateOnNextTip\<close>, \<^verbatim>\<open>SetCompletedTxCoinStatuses\<close>, \<^verbatim>\<open>register_tx\<close>, \<^verbatim>\<open>ConfirmKernel\<close>)
  are recorded as calls only; what they do beyond the driver is not part of it.
\<close>

definition UpdateTxDescription :: "TxStatus \<Rightarrow> SimpleTransaction \<Rightarrow> SimpleTransaction" where
  "UpdateTxDescription s tx =
     call (Call_UpdateTxDescription s) (tx\<lparr>params := (params tx)\<lparr>Status := Some s\<rparr>\<rparr>)"

definition OnFailed :: "TxFailureReason \<Rightarrow> bool \<Rightarrow> SimpleTransaction \<Rightarrow> SimpleTransaction" where
  "OnFailed reason notify tx =
     call (Call_OnFailed reason notify)
       (tx\<lparr>params := (params tx)\<lparr>Status := Some TxStatus_Failed, FailureReason := Some reason\<rparr>\<rparr>)"

definition CompleteTx :: "SimpleTransaction \<Rightarrow> SimpleTransaction" where
  "CompleteTx tx =
     call Call_CompleteTx (tx\<lparr>params := (params tx)\<lparr>Status := Some TxStatus_Completed\<rparr>\<rparr>)"

definition SendTxParameters ::
  "Env \<Rightarrow> TxParameters \<Rightarrow> SimpleTransaction \<Rightarrow> bool \<times> SimpleTransaction" where
  "SendTxParameters env msg tx = (SendTxParameters_result env, call (Call_SendTxParameters msg) tx)"

text \<open>The messages handed to the transport so far, oldest first.\<close>

fun sent :: "Call list \<Rightarrow> TxParameters list" where
  "sent [] = []"
| "sent (Call_SendTxParameters msg # cs) = msg # sent cs"
| "sent (c # cs) = sent cs"

definition SetParameters :: "TxParameters \<Rightarrow> (TxParameterID \<times> ParamValue) list \<Rightarrow> TxParameters" where
  "SetParameters ps kvs = foldl (\<lambda>ps kv. SetParameter (fst kv) (snd kv) ps) ps kvs"

subsection \<open>Sending the invitation and its confirmation\<close>

definition SendInvitation :: "Env \<Rightarrow> bool \<Rightarrow> SimpleTransaction \<Rightarrow> SimpleTransaction" where
  "SendInvitation env isSender tx =
     (let b = builder env;
          msg = SetParameters []
            [(TxParameterID_Amount, V_Amount (GetAmount b)),
             (TxParameterID_Fee, V_Amount (GetFee b)),
             (TxParameterID_MinHeight, V_Height (GetMinHeight b)),
             (TxParameterID_Lifetime, V_Height (GetLifetime b)),
             (TxParameterID_PeerMaxHeight, V_Height (GetMaxHeight b)),
             (TxParameterID_IsSender, V_bool (\<not> isSender)),
             (TxParameterID_PeerProtoVersion, V_uint32 (s_ProtoVersion env)),
             (TxParameterID_PeerPublicExcess, V_Point (GetPublicExcess b)),
             (TxParameterID_PeerPublicNonce, V_Point (GetPublicNonce b)),
             (TxParameterID_AssetID, V_uint32 (GetAssetId b))];
          r = SendTxParameters env msg tx
      in if \<not> fst r then OnFailed TxFailureReason_FailedToSendParameters False (snd r)
         else snd r)"

text \<open>
  Modelled from the spec: \<^verbatim>\<open>PaymentConfirmation::Sign\<close> is defined outside the driver; by
  the spec it is a Schnorr signature over the hash of the tag "PaymentConfirmation", the
  kernel id, the amount and the sender's public key.
\<close>

definition PaymentConfirmation_Sign ::
  "KernelID \<Rightarrow> ECC_Point \<Rightarrow> Amount \<Rightarrow> ECC_Scalar \<Rightarrow> ECC_Signature" where
  "PaymentConfirmation_Sign kernelID sender v sk = Sign (PaymentConfirmation_Hash kernelID sender v) sk"

text \<open>
  \<^verbatim>\<open>ConfirmInvitation\<close>, in two steps: the parameter set it builds, and the function itself,
  which reads \<^verbatim>\<open>IsSender\<close> (a mandatory read: it throws when the key is missing) and
  hands the set to the transport. The result of \<^verbatim>\<open>SendTxParameters\<close> is dropped, as in the
  source. \<^verbatim>\<open>Sk2Pk\<close> only writes into local copies; the derived key stands for the key
  after it.
\<close>

definition ConfirmInvitation_params ::
  "Env \<Rightarrow> IPrivateKeyKeeper \<Rightarrow> bool \<Rightarrow> TxRecord \<Rightarrow> TxParameters" where
  "ConfirmInvitation_params env kk isSender p =
     (let b = builder env;
          msg0 = SetParameters []
            [(TxParameterID_PeerProtoVersion, V_uint32 (s_ProtoVersion env)),
             (TxParameterID_PeerPublicExcess, V_Point (GetPublicExcess b)),
             (TxParameterID_PeerSignature, V_Scalar (GetPartialSignature b)),
             (TxParameterID_PeerPublicNonce, V_Point (GetPublicNonce b)),
             (TxParameterID_PeerMaxHeight, V_Height (GetMaxHeight b)),
             (TxParameterID_PeerInputs, V_Coins (GetInputs b)),
             (TxParameterID_PeerOutputs, V_Coins (GetOutputs b)),
             (TxParameterID_PeerOffset, V_Scalar (GetOffset b))]
      in if \<not> isSender then
           (case PaymentConfirmation p of
              Some paymentProofSignature \<Rightarrow>
                SetParameter TxParameterID_PaymentConfirmation
                  (V_Signature paymentProofSignature) msg0
            | None \<Rightarrow>
                (case (PeerID p, MyID p, KernelID p, Amount p) of
                   (Some widPeer, Some widMy, Some kernelID, Some v) \<Rightarrow>
                     (case getAddress (m_WalletDB env) widMy of
                        Some waddr \<Rightarrow>
                          (if isOwn waddr then
                             (let sk = DeriveKey (get_SbbsKdf kk) (m_OwnID waddr)
                              in SetParameter TxParameterID_PaymentConfirmation
                                   (V_Signature
                                      (PaymentConfirmation_Sign kernelID (m_Pk widPeer) v sk))
                                   msg0)
                           else msg0)
                      | None \<Rightarrow> msg0)
                 | _ \<Rightarrow> msg0))
         else msg0)"

definition ConfirmInvitation ::
  "Env \<Rightarrow> IPrivateKeyKeeper \<Rightarrow> SimpleTransaction \<Rightarrow> exception + SimpleTransaction" where
  "ConfirmInvitation env kk tx =
     (case IsSender (params tx) of
        None \<Rightarrow> Inl (MissingParameter TxParameterID_IsSender)
      | Some isSender \<Rightarrow>
          Inr (snd (SendTxParameters env
                      (ConfirmInvitation_params env kk isSender (params tx)) tx)))"

definition IsSelfTx :: "AddressBook \<Rightarrow> SimpleTransaction \<Rightarrow> exception + bool" where
  "IsSelfTx db tx =
     (case PeerID (params tx) of
        None \<Rightarrow> Inl (MissingParameter TxParameterID_PeerID)
      | Some peerID \<Rightarrow>
          Inr (case getAddress db peerID of None \<Rightarrow> False | Some address \<Rightarrow> isOwn address))"

subsection \<open>The update\<close>

text \<open>
  \<^verbatim>\<open>UpdateImpl\<close> is one function in the source. It is cut here at its own comments into
  the first participation in \<open>Initial\<close>, the reply of the invited participant, the final
  signing, the negotiation as a whole and the part that follows the signed kernel (where
  \<open>proof_part\<close> is the end of the function, from the read of \<^verbatim>\<open>KernelProofHeight\<close> on).
  Logging is left out, and the assertions are not executed.
\<close>

definition UpdateImpl_initial ::
  "BaseTxBuilder \<Rightarrow> bool \<Rightarrow> bool \<Rightarrow> State \<Rightarrow> SimpleTransaction \<Rightarrow> SimpleTransaction" where
  "UpdateImpl_initial b isSender isSelfTx txState tx =
     (if \<not> GetInitialTxParams b \<and> txState = State_Initial then
        (let tx1 = UpdateTxDescription TxStatus_InProgress tx;
             tx2 = (if isSender then
                      call Call_GenerateNonce (call Call_AddChange (call Call_SelectInputs tx1))
                    else tx1)
         in if isSelfTx \<or> \<not> isSender then
              foldl (\<lambda>t amount.
                       if GetAssetId b \<noteq> 0 then call (Call_GenerateAssetCoin amount False) t
                       else call (Call_GenerateBeamCoin amount False) t)
                tx2 (GetAmountList b)
            else tx2)
      else tx)"

definition UpdateImpl_invited ::
  "Env \<Rightarrow> IPrivateKeyKeeper \<Rightarrow> SimpleTransaction \<Rightarrow> flow \<times> SimpleTransaction" where
  "UpdateImpl_invited env kk tx =
     (let b = builder env;
          tx1 = call Call_SignReceiver tx
      in if SignReceiver b then (Returned, tx1)
         else
           (case ConfirmInvitation env kk (UpdateTxDescription TxStatus_Registering tx1) of
              Inl e \<Rightarrow> (Thrown e, UpdateTxDescription TxStatus_Registering tx1)
            | Inr tx2 \<Rightarrow>
                (case PeerProtoVersion (params tx2) of
                   Some nVer \<Rightarrow>
                     (Returned,
                      call (Call_ConfirmKernel (GetKernelID b))
                        (SetState State_KernelConfirmation
                           (SetParameter_TransactionRegistered proto_Ok tx2)))
                 | None \<Rightarrow> (Returned, SetState State_InvitationConfirmation tx2))))"

definition UpdateImpl_sign ::
  "Env \<Rightarrow> bool \<Rightarrow> SimpleTransaction \<Rightarrow> flow \<times> SimpleTransaction" where
  "UpdateImpl_sign env isSelfTx tx =
     (let b = builder env;
          tx1 = (if \<not> isSelfTx then call (Call_SignSender False) tx else call Call_SignReceiver tx)
      in if (if \<not> isSelfTx then SignSender b False else SignReceiver b) then (Returned, tx1)
         else if IsInitiator env \<and> \<not> IsPeerSignatureValid b then
           (Returned, OnFailed TxFailureReason_InvalidPeerSignature True tx1)
         else (Continue, call Call_FinalizeSignature tx1))"

definition UpdateImpl_negotiate ::
  "Env \<Rightarrow> IPrivateKeyKeeper \<Rightarrow> bool \<Rightarrow> bool \<Rightarrow> State \<Rightarrow> SimpleTransaction
     \<Rightarrow> flow \<times> SimpleTransaction" where
  "UpdateImpl_negotiate env kk isSender isSelfTx txState tx =
     (let b = builder env;
          tx1 = call Call_CreateInputs (UpdateImpl_initial b isSender isSelfTx txState tx)
      in if CreateInputs b then (Returned, tx1)
         else
           (let tx2 = call Call_CreateOutputs tx1
            in if CreateOutputs b then (Returned, tx2)
               else if \<not> isSelfTx \<and> \<not> GetPeerPublicExcessAndNonce b then
                 (if txState = State_Initial then
                    (let tx3 = call (Call_SignSender True) tx2
                     in if SignSender b True then (Returned, tx3)
                        else
                          (Returned,
                           call Call_UpdateOnNextTip
                             (SetState State_Invitation (SendInvitation env isSender tx3))))
                  else (Returned, call Call_UpdateOnNextTip tx2))
               else
                 (let tx3 = call Call_UpdateMaxHeight tx2
                  in if \<not> UpdateMaxHeight b then
                       (Returned, OnFailed TxFailureReason_MaxHeightIsUnacceptable True tx3)
                     else
                       (let tx4 = call Call_CreateKernel tx3
                        in if \<not> isSelfTx \<and> \<not> GetPeerSignature b then
                             (if txState = State_Initial then UpdateImpl_invited env kk tx4
                              else if IsInitiator env then (Returned, tx4)
                              else UpdateImpl_sign env isSelfTx tx4)
                           else UpdateImpl_sign env isSelfTx tx4))))"

definition UpdateImpl_registration :: "Env \<Rightarrow> SimpleTransaction \<Rightarrow> SimpleTransaction" where
  "UpdateImpl_registration env tx =
     (let b = builder env
      in case TransactionRegistered (params tx) of
           None \<Rightarrow>
             (let tx1 = call Call_CheckExpired tx
              in if CheckExpired env then tx1
                 else
                   (let tx2 = call Call_CreateTransaction tx1
                    in if \<not> TransactionIsValid b then
                         OnFailed TxFailureReason_InvalidTransaction True tx2
                       else SetState State_Registration (call Call_register_tx tx2)))
         | Some nRegistered \<Rightarrow>
             (let hProof = (case KernelProofHeight (params tx) of None \<Rightarrow> 0 | Some h \<Rightarrow> h);
                  proof_part =
                    (if hProof = 0 then
                       call (Call_ConfirmKernel (GetKernelID b))
                         (SetState State_KernelConfirmation tx)
                     else CompleteTx (call (Call_SetCompletedTxCoinStatuses hProof) tx))
              in if nRegistered = proto_InvalidContext then
                   (if (case KernelUnconfirmedHeight (params tx) of
                          None \<Rightarrow> False
                        | Some lastUnconfirmedHeight \<Rightarrow> lastUnconfirmedHeight > 0) then
                      OnFailed TxFailureReason_FailedToRegister True tx
                    else proof_part)
                 else if nRegistered \<noteq> proto_Ok then
                   OnFailed TxFailureReason_FailedToRegister True tx
                 else proof_part))"

definition UpdateImpl :: "Env \<Rightarrow> SimpleTransaction \<Rightarrow> flow \<times> SimpleTransaction" where
  "UpdateImpl env tx =
     (case IsSender (params tx) of
        None \<Rightarrow> (Thrown (MissingParameter TxParameterID_IsSender), tx)
      | Some isSender \<Rightarrow>
     (case IsSelfTx (m_WalletDB env) tx of
        Inl e \<Rightarrow> (Thrown e, tx)
      | Inr isSelfTx \<Rightarrow>
     (let txState = GetState tx
      in if AmountList (params tx) = None \<and> Amount (params tx) = None then
           (Thrown (MissingParameter TxParameterID_Amount), tx)
         else if \<not> m_TxBuilder tx \<and> Fee (params tx) = None then
           (Thrown (MissingParameter TxParameterID_Fee), tx)
         else
           (let tx1 = tx\<lparr>m_TxBuilder := True\<rparr>;
                b = builder env
            in if (isSender \<and> \<not> LoadKernel b) \<or>
                  (\<not> isSender \<and> (\<not> HasKernelID b \<or> txState = State_Initial)) then
                 (case m_KeyKeeper env of
                    None \<Rightarrow> (Returned, tx1)
                  | Some kk \<Rightarrow>
                      (case UpdateImpl_negotiate env kk isSender isSelfTx txState tx1 of
                         (Continue, tx2) \<Rightarrow> (Returned, UpdateImpl_registration env tx2)
                       | r \<Rightarrow> r))
               else (Returned, UpdateImpl_registration env tx1)))))"

text \<open>
  The condition under which the update enters the negotiation ("check if we already have
  signed kernel"), and the calls of the first participation, in order.
\<close>

definition no_signed_kernel :: "BaseTxBuilder \<Rightarrow> bool \<Rightarrow> State \<Rightarrow> bool" where
  "no_signed_kernel b isSender txState \<longleftrightarrow>
     (isSender \<and> \<not> LoadKernel b) \<or>
     (\<not> isSender \<and> (\<not> HasKernelID b \<or> txState = State_Initial))"

definition initial_calls :: "BaseTxBuilder \<Rightarrow> bool \<Rightarrow> bool \<Rightarrow> State \<Rightarrow> Call list" where
  "initial_calls b isSender isSelfTx txState =
     (if \<not> GetInitialTxParams b \<and> txState = State_Initial then
        Call_UpdateTxDescription TxStatus_InProgress #
        (if isSender then [Call_SelectInputs, Call_AddChange, Call_GenerateNonce] else []) @
        (if isSelfTx \<or> \<not> isSender then
           map (\<lambda>amount. if GetAssetId b \<noteq> 0 then Call_GenerateAssetCoin amount False
                          else Call_GenerateBeamCoin amount False) (GetAmountList b)
         else [])
      else [])"

text \<open>
  The window of the spec's cancellation rule: the transaction has been submitted (state at
  or beyond Registration) and the record is not terminal yet.
\<close>

fun State_rank :: "State \<Rightarrow> nat" where
  "State_rank State_Initial = 0"
| "State_rank State_Invitation = 1"
| "State_rank State_InvitationConfirmation = 2"
| "State_rank State_Registration = 3"
| "State_rank State_KernelConfirmation = 4"

definition spec_terminal :: "SimpleTransaction \<Rightarrow> bool" where
  "spec_terminal tx \<longleftrightarrow>
     Status (params tx) = Some TxStatus_Completed \<or>
     Status (params tx) = Some TxStatus_Failed \<or>
     Status (params tx) = Some TxStatus_Canceled"

definition spec_submitted_not_terminal :: "SimpleTransaction \<Rightarrow> bool" where
  "spec_submitted_not_terminal tx \<longleftrightarrow>
     State_rank State_Registration \<le> State_rank (GetState tx) \<and> \<not> spec_terminal tx"

section \<open>Creating a transaction: the address book\<close>

text \<open>
  Reads of a parameter set: the typed read of a wallet id, and the raw read that the
  creator uses for the message, which yields the bytes of a byte-buffer value. A value
  stored under another type than the one read is a missing key here.
\<close>

definition GetParameter_WalletID :: "TxParameterID \<Rightarrow> TxParameters \<Rightarrow> WalletID option" where
  "GetParameter_WalletID k ps =
     (case GetParameter k ps of Some (V_WalletID w) \<Rightarrow> Some w | _ \<Rightarrow> None)"

definition GetParameter_ByteBuffer :: "TxParameterID \<Rightarrow> TxParameters \<Rightarrow> string option" where
  "GetParameter_ByteBuffer k ps =
     (case GetParameter k ps of Some (V_ByteBuffer s) \<Rightarrow> Some s | _ \<Rightarrow> None)"

text \<open>
  Modelled from the spec: the default-constructed address; its constructor is outside the
  available sources. A fresh entry has no label and is not an owned address.
\<close>

definition WalletAddress_default :: WalletAddress where
  "WalletAddress_default =
     \<lparr>m_walletID = \<lparr>m_Channel = 0, m_Pk = Point 0\<rparr>, m_label = [], m_createTime = 0,
      m_OwnID = 0, own = False, expired = False\<rparr>"

text \<open>
  \<^verbatim>\<open>Creator::CheckAndCompleteParameters\<close>, with the clock reading and the address book
  passed in and the address book returned.
\<close>

definition CheckAndCompleteParameters ::
  "Timestamp \<Rightarrow> AddressBook \<Rightarrow> TxParameters \<Rightarrow> exception + (TxParameters \<times> AddressBook)" where
  "CheckAndCompleteParameters getTimestamp db parameters =
     (case GetParameter_WalletID TxParameterID_PeerID parameters of
        None \<Rightarrow> Inl InvalidTransactionParametersException
      | Some peerID \<Rightarrow>
          (case getAddress db peerID of
             Some receiverAddr \<Rightarrow>
               (if isOwn receiverAddr \<and> isExpired receiverAddr then Inl AddressExpiredException
                else
                  (let db1 =
                     (case GetParameter_ByteBuffer TxParameterID_Message parameters of
                        Some messageStr \<Rightarrow>
                          (if messageStr \<noteq> m_label receiverAddr then
                             saveAddress db (receiverAddr\<lparr>m_label := messageStr\<rparr>)
                           else db)
                      | None \<Rightarrow> db)
                   in Inr (SetParameter TxParameterID_IsSelfTx (V_bool (isOwn receiverAddr))
                             parameters, db1)))
           | None \<Rightarrow>
               (let address = WalletAddress_default\<lparr>m_walletID := peerID,
                                m_createTime := getTimestamp\<rparr>;
                    address1 =
                      (case GetParameter_ByteBuffer TxParameterID_Message parameters of
                         Some message \<Rightarrow> address\<lparr>m_label := message\<rparr>
                       | None \<Rightarrow> address)
                in Inr (parameters, saveAddress db address1))))"

section \<open>The two shapes of a key-keeper operation\<close>

text \<open>
  The status of a key-keeper operation. The enumeration is declared in the key keeper's
  header; the values are those the spec names.
\<close>

datatype Status_Type =
    Status_Ok
  | Status_InProgress
  | Status_UserAbort
  | Status_Unspecified
  | Status_DeviceLost

text \<open>
  The handler of the synchronous shape, with the method structure it owns. An
  implementation fills the structure it was given by reference and calls \<^verbatim>\<open>OnDone\<close>; a
  call is the pair of the structure as filled and the status (\<open>deliver\<close>). \<^verbatim>\<open>OnDone\<close> stores
  the status and asks the reactor to stop; \<open>stop\<close> holds that request.
\<close>

record 'm HandlerSync =
  m_Status :: Status_Type
  m_M :: 'm
  stop :: bool

definition OnDone :: "Status_Type \<Rightarrow> 'm HandlerSync \<Rightarrow> 'm HandlerSync" where
  "OnDone nRes p = p\<lparr>m_Status := nRes, stop := True\<rparr>"

definition deliver :: "'m \<times> Status_Type \<Rightarrow> 'm HandlerSync \<Rightarrow> 'm HandlerSync" where
  "deliver c p = OnDone (snd c) (p\<lparr>m_M := fst c\<rparr>)"

text \<open>
  The reactor loop, reduced to the handler calls it delivers: it returns as soon as a stop
  has been asked for, also when that happened before it started; when nothing is left to
  deliver and no stop was asked for, it does not return.
\<close>

fun Reactor_run :: "('m \<times> Status_Type) list \<Rightarrow> 'm HandlerSync \<Rightarrow> 'm HandlerSync option" where
  "Reactor_run [] p = (if stop p then Some p else None)"
| "Reactor_run (c # cs) p = (if stop p then Some p else Reactor_run cs (deliver c p))"

definition Wait :: "('m \<times> Status_Type) list \<Rightarrow> 'm HandlerSync \<Rightarrow> ('m HandlerSync \<times> Status_Type) option" where
  "Wait later p = map_option (\<lambda>p'. (p', m_Status p')) (Reactor_run later p)"

text \<open>
  An asynchronous shape is given by the handler calls it makes: those before
  \<^verbatim>\<open>InvokeAsync\<close> returns and those that arrive later through the reactor; \<open>None\<close> when
  \<^verbatim>\<open>InvokeAsync\<close> itself does not return. A synchronous shape returns the status and the
  structure as filled, or does not return. The state a structure is left in after it has
  been moved from is the parameter \<open>moved\<close>. The two defaults are written in terms of
  each other; a key keeper overrides one of them for each method, and that one is the
  shape passed in.
\<close>

type_synonym 'm AsyncShape = "'m \<Rightarrow> (('m \<times> Status_Type) list \<times> ('m \<times> Status_Type) list) option"
type_synonym 'm SyncShape = "'m \<Rightarrow> (Status_Type \<times> 'm) option"

definition InvokeSyncInternal :: "'m AsyncShape \<Rightarrow> ('m \<Rightarrow> 'm) \<Rightarrow> 'm SyncShape" where
  "InvokeSyncInternal InvokeAsync moved m =
     (let p = \<lparr>m_Status = Status_InProgress, m_M = m, stop = False\<rparr>;
          m0 = moved m
      in case InvokeAsync (m_M p) of
           None \<Rightarrow> None
         | Some (at_once, later) \<Rightarrow>
             (case Wait later (foldl (\<lambda>p c. deliver c p) p at_once) of
                None \<Rightarrow> None
              | Some (p', ret) \<Rightarrow>
                  Some (ret, if Status_InProgress \<noteq> ret then m_M p' else m0)))"

definition InvokeSync_default :: "'m AsyncShape \<Rightarrow> ('m \<Rightarrow> 'm) \<Rightarrow> 'm SyncShape" where
  "InvokeSync_default InvokeAsync moved m = InvokeSyncInternal InvokeAsync moved m"

definition InvokeAsync_default :: "'m SyncShape \<Rightarrow> 'm AsyncShape" where
  "InvokeAsync_default InvokeSync m =
     (case InvokeSync m of
        None \<Rightarrow> None
      | Some (res, m') \<Rightarrow> Some ([(m', res)], []))"

section \<open>Example records\<close>

definition alice :: WalletID where
  "alice = \<lparr>m_Channel = 1, m_Pk = Point 11\<rparr>"

definition bob :: WalletID where
  "bob = \<lparr>m_Channel = 2, m_Pk = Sk2Pk (DeriveKey 1 5)\<rparr>"

definition own_address :: "WalletID \<Rightarrow> nat \<Rightarrow> WalletAddress" where
  "own_address wid ownID =
     \<lparr>m_walletID = wid, m_label = ''mine'', m_createTime = 0, m_OwnID = ownID,
      own = True, expired = False\<rparr>"

definition params_none :: TxRecord where
  "params_none =
     \<lparr>State = None, Status = None, FailureReason = None, IsSender = None, AmountList = None,
      Amount = None, Fee = None, PeerID = None, MyID = None, KernelID = None,
      PeerProtoVersion = None, PaymentConfirmation = None, TransactionRegistered = None,
      KernelUnconfirmedHeight = None, KernelProofHeight = None\<rparr>"

definition new_tx :: "TxRecord \<Rightarrow> SimpleTransaction" where
  "new_tx p = \<lparr>params = p, m_TxBuilder = False, calls = []\<rparr>"

definition sender_params :: TxRecord where
  "sender_params =
     params_none\<lparr>IsSender := Some True, Amount := Some 1000000, Fee := Some 100,
                  PeerID := Some bob, MyID := Some alice\<rparr>"

definition receiver_params :: TxRecord where
  "receiver_params =
     params_none\<lparr>IsSender := Some False, Amount := Some 1000000, Fee := Some 100,
                  PeerID := Some alice, MyID := Some bob, KernelID := Some 42,
                  PeerProtoVersion := Some 4\<rparr>"

definition builder_fresh :: BaseTxBuilder where
  "builder_fresh =
     \<lparr>LoadKernel = False, HasKernelID = False, GetInitialTxParams = False,
      GetPeerPublicExcessAndNonce = False, GetPeerSignature = False,
      IsPeerSignatureValid = True, CreateInputs = False, CreateOutputs = False,
      SignSender = (\<lambda>initial. False), SignReceiver = False, UpdateMaxHeight = True,
      TransactionIsValid = True, GetAssetId = 0, GetAmountList = [1000000],
      GetAmount = 1000000, GetFee = 100, GetMinHeight = 10, GetLifetime = 240,
      GetMaxHeight = 250, GetPublicExcess = Point 1, GetPublicNonce = Point 2,
      GetPartialSignature = Scalar 3, GetInputs = [], GetOutputs = [7],
      GetOffset = Scalar 4, GetKernelID = 42\<rparr>"

definition sender_env :: Env where
  "sender_env =
     \<lparr>m_KeyKeeper = Some \<lparr>get_SbbsKdf = 2\<rparr>,
      m_WalletDB = [alice \<mapsto> own_address alice 3],
      builder = builder_fresh, IsInitiator = True, CheckExpired = False,
      SendTxParameters_result = True, s_ProtoVersion = 4\<rparr>"

definition receiver_env :: Env where
  "receiver_env =
     \<lparr>m_KeyKeeper = Some \<lparr>get_SbbsKdf = 1\<rparr>,
      m_WalletDB = [bob \<mapsto> own_address bob 5],
      builder = builder_fresh\<lparr>GetPeerPublicExcessAndNonce := True\<rparr>,
      IsInitiator = False, CheckExpired = False,
      SendTxParameters_result = True, s_ProtoVersion = 4\<rparr>"

definition sender_reply_env :: Env where
  "sender_reply_env =
     sender_env\<lparr>builder := builder_fresh\<lparr>GetPeerPublicExcessAndNonce := True,
                                            GetPeerSignature := True\<rparr>\<rparr>"

definition registered_env :: Env where
  "registered_env = sender_env\<lparr>builder := builder_fresh\<lparr>LoadKernel := True\<rparr>\<rparr>"

definition amount_list_params :: TxRecord where
  "amount_list_params = receiver_params\<lparr>Amount := None, AmountList := Some [1000000]\<rparr>"

section \<open>Auxiliary facts\<close>

lemma foldl_call:
  "foldl (\<lambda>t a. if c then call (f a) t else call (g a) t) tx xs =
     tx\<lparr>calls := calls tx @ map (\<lambda>a. if c then f a else g a) xs\<rparr>"
  by (induction xs arbitrary: tx) (simp_all add: call_def)

lemma UpdateImpl_initial_eq:
  "UpdateImpl_initial b isSender isSelfTx txState tx =
     tx\<lparr>params :=
          (if \<not> GetInitialTxParams b \<and> txState = State_Initial
           then (params tx)\<lparr>Status := Some TxStatus_InProgress\<rparr> else params tx),
        calls := calls tx @ initial_calls b isSender isSelfTx txState\<rparr>"
  by (simp add: UpdateImpl_initial_def initial_calls_def foldl_call Let_def
      UpdateTxDescription_def call_def)

lemma sent_append: "sent (xs @ ys) = sent xs @ sent ys"
  by (induction xs rule: sent.induct) simp_all

lemma sent_initial_calls: "sent (initial_calls b isSender isSelfTx txState) = []"
proof -
  have "sent (map (\<lambda>amount. if c then Call_GenerateAssetCoin amount False
                          else Call_GenerateBeamCoin amount False) xs) = []" for c xs
    by (induction xs) auto
  then show ?thesis by (simp add: initial_calls_def sent_append)
qed



lemma SetParameters_Nil: "SetParameters ps [] = ps"
  by (simp add: SetParameters_def)

lemma SetParameters_Cons: "SetParameters ps (kv # kvs) = SetParameters (SetParameter (fst kv) (snd kv) ps) kvs"
  by (simp add: SetParameters_def)

lemma GetParameter_SetParameter: "GetParameter k (SetParameter k v ps) = Some v"
  by (induction ps) (auto simp: GetParameter_def)

lemma ConfirmInvitation_eq:
  "IsSender (params tx) = Some isSender \<Longrightarrow>
   ConfirmInvitation env kk tx =
     Inr (call (Call_SendTxParameters (ConfirmInvitation_params env kk isSender (params tx))) tx)"
  by (simp add: ConfirmInvitation_def SendTxParameters_def)

text \<open>
  When the asynchronous shape calls the handler exactly once, the synchronous wait returns
  the status of that call.
\<close>

lemma InvokeSyncInternal_once:
  assumes "InvokeAsync m = Some (at_once, later)"
    and "at_once @ later = [(m', st)]"
  shows "InvokeSyncInternal InvokeAsync moved m =
           Some (st, if st \<noteq> Status_InProgress then m' else moved m)"
proof (cases at_once)
  case Nil
  with assms have "later = [(m', st)]" by simp
  with Nil assms(1) show ?thesis
    by (auto simp add: InvokeSyncInternal_def Wait_def deliver_def OnDone_def)
next
  case (Cons c cs)
  with assms have "at_once = [(m', st)]" "later = []" by simp_all
  with assms(1) show ?thesis
    by (auto simp add: InvokeSyncInternal_def Wait_def deliver_def OnDone_def)
qed

lemmas example_defs =
  new_tx_def sender_params_def receiver_params_def params_none_def sender_env_def
  receiver_env_def sender_reply_env_def registered_env_def builder_fresh_def
  alice_def bob_def own_address_def


section \<open>The sender after the peer's reply\<close>

text \<open>
  Claim C1, as the code has it: on the sender path of a two-party transfer, once the
  builder's final sender signature is there, the update checks the peer's partial signature
  when this side is the initiator, failing the record with InvalidPeerSignature; otherwise
  its next call is the finalization of the signature, and, with no verdict stored, the
  record not expired and the transaction valid, it builds the transaction, submits it and
  sets the state to Registration. The driver makes no call between the check of the peer's
  signature and the finalization: it has no payment-proof check of its own there. What the
  builder and the key keeper do inside their calls is outside the driver and is not stated.
\<close>

theorem sender_signs_without_payment_proof:
  assumes "IsSender (params tx) = Some True"
    and "IsSelfTx (m_WalletDB env) tx = Inr False"
    and "AmountList (params tx) \<noteq> None \<or> Amount (params tx) \<noteq> None"
    and "m_TxBuilder tx \<or> Fee (params tx) \<noteq> None"
    and "\<not> LoadKernel (builder env)"
    and "m_KeyKeeper env = Some kk"
    and "\<not> CreateInputs (builder env)"
    and "\<not> CreateOutputs (builder env)"
    and "GetPeerPublicExcessAndNonce (builder env)"
    and "UpdateMaxHeight (builder env)"
    and "GetPeerSignature (builder env)"
    and "\<not> SignSender (builder env) False"
    and "TransactionRegistered (params tx) = None"
    and "\<not> CheckExpired env"
    and "TransactionIsValid (builder env)"
  shows "fst (UpdateImpl env tx) = Returned \<and>
         (IsInitiator env \<and> \<not> IsPeerSignatureValid (builder env) \<longrightarrow>
            FailureReason (params (snd (UpdateImpl env tx))) =
              Some TxFailureReason_InvalidPeerSignature \<and>
            calls (snd (UpdateImpl env tx)) =
              calls tx @ initial_calls (builder env) True False (GetState tx) @
              [Call_CreateInputs, Call_CreateOutputs, Call_UpdateMaxHeight, Call_CreateKernel,
               Call_SignSender False,
               Call_OnFailed TxFailureReason_InvalidPeerSignature True]) \<and>
         (\<not> (IsInitiator env \<and> \<not> IsPeerSignatureValid (builder env)) \<longrightarrow>
            State (params (snd (UpdateImpl env tx))) = Some State_Registration \<and>
            FailureReason (params (snd (UpdateImpl env tx))) = FailureReason (params tx) \<and>
            calls (snd (UpdateImpl env tx)) =
              calls tx @ initial_calls (builder env) True False (GetState tx) @
              [Call_CreateInputs, Call_CreateOutputs, Call_UpdateMaxHeight, Call_CreateKernel,
               Call_SignSender False, Call_FinalizeSignature, Call_CheckExpired,
               Call_CreateTransaction, Call_register_tx])"
proof -
  have 1: "fst (UpdateImpl env tx) = Returned"
    using assms
    by (auto simp add: UpdateImpl_def UpdateImpl_negotiate_def UpdateImpl_sign_def
        UpdateImpl_registration_def UpdateImpl_initial_eq Let_def OnFailed_def
        SetState_def call_def)
  have 2: "IsInitiator env \<and> \<not> IsPeerSignatureValid (builder env) \<longrightarrow>
            FailureReason (params (snd (UpdateImpl env tx))) =
              Some TxFailureReason_InvalidPeerSignature \<and>
            calls (snd (UpdateImpl env tx)) =
              calls tx @ initial_calls (builder env) True False (GetState tx) @
              [Call_CreateInputs, Call_CreateOutputs, Call_UpdateMaxHeight, Call_CreateKernel,
               Call_SignSender False,
               Call_OnFailed TxFailureReason_InvalidPeerSignature True]"
    using assms
    by (auto simp add: UpdateImpl_def UpdateImpl_negotiate_def UpdateImpl_sign_def
        UpdateImpl_registration_def UpdateImpl_initial_eq Let_def OnFailed_def
        SetState_def call_def)
  have 3: "\<not> (IsInitiator env \<and> \<not> IsPeerSignatureValid (builder env)) \<longrightarrow>
            State (params (snd (UpdateImpl env tx))) = Some State_Registration \<and>
            FailureReason (params (snd (UpdateImpl env tx))) = FailureReason (params tx) \<and>
            calls (snd (UpdateImpl env tx)) =
              calls tx @ initial_calls (builder env) True False (GetState tx) @
              [Call_CreateInputs, Call_CreateOutputs, Call_UpdateMaxHeight, Call_CreateKernel,
               Call_SignSender False, Call_FinalizeSignature, Call_CheckExpired,
               Call_CreateTransaction, Call_register_tx]"
    using assms
    by (auto simp add: UpdateImpl_def UpdateImpl_negotiate_def UpdateImpl_sign_def
        UpdateImpl_registration_def UpdateImpl_initial_eq Let_def OnFailed_def
        SetState_def call_def)
  from 1 2 3 show ?thesis by blast
qed

text \<open>
  An instance: the sender's record of the two-party example after the peer's reply.
\<close>

theorem sender_signs_without_payment_proof_witness:
  "State (params (snd (UpdateImpl sender_reply_env
      (new_tx (sender_params\<lparr>State := Some State_Invitation\<rparr>))))) = Some State_Registration \<and>
   calls (snd (UpdateImpl sender_reply_env
      (new_tx (sender_params\<lparr>State := Some State_Invitation\<rparr>)))) =
     [Call_CreateInputs, Call_CreateOutputs, Call_UpdateMaxHeight, Call_CreateKernel,
      Call_SignSender False, Call_FinalizeSignature, Call_CheckExpired,
      Call_CreateTransaction, Call_register_tx]"
proof -
  let ?tx = "new_tx (sender_params\<lparr>State := Some State_Invitation\<rparr>)"
  have h: "IsSender (params ?tx) = Some True"
    "IsSelfTx (m_WalletDB sender_reply_env) ?tx = Inr False"
    "AmountList (params ?tx) \<noteq> None \<or> Amount (params ?tx) \<noteq> None"
    "m_TxBuilder ?tx \<or> Fee (params ?tx) \<noteq> None"
    "\<not> LoadKernel (builder sender_reply_env)"
    "m_KeyKeeper sender_reply_env = Some \<lparr>get_SbbsKdf = 2\<rparr>"
    "\<not> CreateInputs (builder sender_reply_env)"
    "\<not> CreateOutputs (builder sender_reply_env)"
    "GetPeerPublicExcessAndNonce (builder sender_reply_env)"
    "UpdateMaxHeight (builder sender_reply_env)"
    "GetPeerSignature (builder sender_reply_env)"
    "\<not> SignSender (builder sender_reply_env) False"
    "TransactionRegistered (params ?tx) = None"
    "\<not> CheckExpired sender_reply_env"
    "TransactionIsValid (builder sender_reply_env)"
    by (simp_all add: example_defs IsSelfTx_def getAddress_def)
  have i: "\<not> (IsInitiator sender_reply_env \<and> \<not> IsPeerSignatureValid (builder sender_reply_env))"
    "initial_calls (builder sender_reply_env) True False (GetState ?tx) = []"
    "calls ?tx = []"
    by (simp_all add: example_defs initial_calls_def GetState_def)
  from sender_signs_without_payment_proof [OF h] i show ?thesis by simp
qed

text \<open>
  Against claim C1 as stated: a sender's record of a non-self transfer that holds no
  payment proof at all, with a builder whose final sender signature is done. The update
  goes from the signature to the finalization and the submission; the record is not failed.
\<close>

theorem sender_registers_without_payment_proof:
  "PaymentConfirmation (params (new_tx (sender_params\<lparr>State := Some State_Invitation\<rparr>))) = None \<and>
   IsSelfTx (m_WalletDB sender_reply_env)
     (new_tx (sender_params\<lparr>State := Some State_Invitation\<rparr>)) = Inr False \<and>
   UpdateImpl sender_reply_env (new_tx (sender_params\<lparr>State := Some State_Invitation\<rparr>)) =
     (Returned,
      \<lparr>params = sender_params\<lparr>State := Some State_Registration\<rparr>,
       m_TxBuilder = True,
       calls = [Call_CreateInputs, Call_CreateOutputs, Call_UpdateMaxHeight, Call_CreateKernel,
                Call_SignSender False, Call_FinalizeSignature, Call_CheckExpired,
                Call_CreateTransaction, Call_register_tx]\<rparr>)"
  by (simp add: UpdateImpl_def UpdateImpl_negotiate_def UpdateImpl_sign_def
      UpdateImpl_registration_def UpdateImpl_initial_def Let_def IsSelfTx_def GetState_def
      SetState_def call_def getAddress_def
      sender_reply_env_def sender_env_def builder_fresh_def new_tx_def sender_params_def
      params_none_def alice_def bob_def)

section \<open>The registration verdict\<close>




section \<open>The cancellation-unsafe window\<close>

text \<open>
  Claim C3, as the code has it: \<^verbatim>\<open>IsInSafety\<close> holds exactly when the state of the record is
  KernelConfirmation. A record in state Registration is outside the window, and the status
  of the record, terminal or not, is not looked at.
\<close>

theorem IsInSafety_exactly_KernelConfirmation:
  "IsInSafety tx \<longleftrightarrow> State (params tx) = Some State_KernelConfirmation"
  by (simp add: IsInSafety_def GetState_def split: option.splits)

text \<open>
  The window of the spec (state at or beyond Registration, not terminal) is wider: a
  sender's record that has just been submitted is in it, and \<^verbatim>\<open>IsInSafety\<close> is false there.
\<close>

theorem Registration_not_IsInSafety:
  "spec_submitted_not_terminal
     (new_tx (sender_params\<lparr>State := Some State_Registration,
                Status := Some TxStatus_InProgress\<rparr>)) \<and>
   \<not> IsInSafety
     (new_tx (sender_params\<lparr>State := Some State_Registration,
                Status := Some TxStatus_InProgress\<rparr>))"
  by (simp add: spec_submitted_not_terminal_def spec_terminal_def IsInSafety_def GetState_def
      new_tx_def sender_params_def params_none_def)

section \<open>A failing transport\<close>

text \<open>
  Claim C4 holds for the invitation only: \<^verbatim>\<open>SendInvitation\<close> tests the result of
  \<^verbatim>\<open>SendTxParameters\<close> and fails the record with FailedToSendParameters, but
  \<^verbatim>\<open>ConfirmInvitation\<close> drops the result. Here the receiver's transport fails: the record
  does not fail, and it moves on to KernelConfirmation as if the confirmation had been sent.
\<close>

theorem receiver_ignores_send_failure:
  "UpdateImpl (receiver_env\<lparr>SendTxParameters_result := False\<rparr>) (new_tx receiver_params) =
     (Returned,
      \<lparr>params = receiver_params\<lparr>Status := Some TxStatus_Registering,
                  TransactionRegistered := Some proto_Ok,
                  State := Some State_KernelConfirmation\<rparr>,
       m_TxBuilder = True,
       calls = [Call_UpdateTxDescription TxStatus_InProgress,
                Call_GenerateBeamCoin 1000000 False,
                Call_CreateInputs, Call_CreateOutputs, Call_UpdateMaxHeight, Call_CreateKernel,
                Call_SignReceiver, Call_UpdateTxDescription TxStatus_Registering,
                Call_SendTxParameters
                  [(TxParameterID_PeerProtoVersion, V_uint32 4),
                   (TxParameterID_PeerPublicExcess, V_Point (Point 1)),
                   (TxParameterID_PeerSignature, V_Scalar (Scalar 3)),
                   (TxParameterID_PeerPublicNonce, V_Point (Point 2)),
                   (TxParameterID_PeerMaxHeight, V_Height 250),
                   (TxParameterID_PeerInputs, V_Coins []),
                   (TxParameterID_PeerOutputs, V_Coins [7]),
                   (TxParameterID_PeerOffset, V_Scalar (Scalar 4)),
                   (TxParameterID_PaymentConfirmation,
                    V_Signature (Sign (PaymentConfirmation_Hash 42 (Point 11) 1000000)
                                   (DeriveKey 1 5)))],
                Call_ConfirmKernel 42]\<rparr>)"
  by (simp add: UpdateImpl_def UpdateImpl_negotiate_def UpdateImpl_invited_def
      UpdateImpl_initial_def Let_def IsSelfTx_def GetState_def ConfirmInvitation_def
      ConfirmInvitation_params_def PaymentConfirmation_Sign_def SendTxParameters_def
      SetParameters_def UpdateTxDescription_def
      SetState_def SetParameter_TransactionRegistered_def call_def getAddress_def isOwn_def
      own_address_def
      receiver_env_def builder_fresh_def new_tx_def receiver_params_def
      params_none_def alice_def bob_def)

text \<open>
  What is left in the record there: it is not failed, no failure reason is stored, and
  the only calls after the message are those of the success path.
\<close>

theorem receiver_ignores_send_failure_witness:
  "Status (params (snd (UpdateImpl (receiver_env\<lparr>SendTxParameters_result := False\<rparr>)
      (new_tx receiver_params)))) = Some TxStatus_Registering \<and>
   FailureReason (params (snd (UpdateImpl (receiver_env\<lparr>SendTxParameters_result := False\<rparr>)
      (new_tx receiver_params)))) = None \<and>
   State (params (snd (UpdateImpl (receiver_env\<lparr>SendTxParameters_result := False\<rparr>)
      (new_tx receiver_params)))) = Some State_KernelConfirmation \<and>
   last (calls (snd (UpdateImpl (receiver_env\<lparr>SendTxParameters_result := False\<rparr>)
      (new_tx receiver_params)))) = Call_ConfirmKernel 42"
  using receiver_ignores_send_failure
  by (simp add: receiver_params_def params_none_def)

section \<open>The payment proof in the confirmation\<close>

text \<open>
  Claim C5, as the code has it: for a receiver's record (\<^verbatim>\<open>IsSender\<close> false) the
  confirmation carries the stored \<^verbatim>\<open>PaymentConfirmation\<close> signature when there is one;
  otherwise, when \<^verbatim>\<open>PeerID\<close>, \<^verbatim>\<open>MyID\<close>, \<^verbatim>\<open>KernelID\<close> and \<^verbatim>\<open>Amount\<close> are all stored and
  \<^verbatim>\<open>MyID\<close> resolves to an owned address, it carries a signature over the kernel id, the
  amount and the public key of \<^verbatim>\<open>PeerID\<close>, made with the key that the keeper's SBBS KDF
  derives for the own id of that address.
\<close>

theorem confirmation_carries_payment_proof:
  assumes "IsSender (params tx) = Some False"
  shows "ConfirmInvitation env kk tx =
           Inr (call (Call_SendTxParameters (ConfirmInvitation_params env kk False (params tx))) tx) \<and>
         (\<forall>paymentProofSignature.
            PaymentConfirmation (params tx) = Some paymentProofSignature \<longrightarrow>
            GetParameter TxParameterID_PaymentConfirmation
              (ConfirmInvitation_params env kk False (params tx)) =
            Some (V_Signature paymentProofSignature)) \<and>
         (\<forall>widPeer widMy kernelID v waddr.
            PaymentConfirmation (params tx) = None \<and>
            PeerID (params tx) = Some widPeer \<and> MyID (params tx) = Some widMy \<and>
            KernelID (params tx) = Some kernelID \<and> Amount (params tx) = Some v \<and>
            getAddress (m_WalletDB env) widMy = Some waddr \<and> isOwn waddr \<longrightarrow>
            GetParameter TxParameterID_PaymentConfirmation
              (ConfirmInvitation_params env kk False (params tx)) =
            Some (V_Signature
                    (Sign (PaymentConfirmation_Hash kernelID (m_Pk widPeer) v)
                       (DeriveKey (get_SbbsKdf kk) (m_OwnID waddr)))))"
proof (intro conjI allI impI)
  show "ConfirmInvitation env kk tx =
          Inr (call (Call_SendTxParameters (ConfirmInvitation_params env kk False (params tx))) tx)"
    by (rule ConfirmInvitation_eq [OF assms])
next
  fix paymentProofSignature
  assume "PaymentConfirmation (params tx) = Some paymentProofSignature"
  then show "GetParameter TxParameterID_PaymentConfirmation
               (ConfirmInvitation_params env kk False (params tx)) =
             Some (V_Signature paymentProofSignature)"
    by (simp add: ConfirmInvitation_params_def Let_def GetParameter_SetParameter)
next
  fix widPeer widMy kernelID v waddr
  assume "PaymentConfirmation (params tx) = None \<and>
          PeerID (params tx) = Some widPeer \<and> MyID (params tx) = Some widMy \<and>
          KernelID (params tx) = Some kernelID \<and> Amount (params tx) = Some v \<and>
          getAddress (m_WalletDB env) widMy = Some waddr \<and> isOwn waddr"
  then show "GetParameter TxParameterID_PaymentConfirmation
               (ConfirmInvitation_params env kk False (params tx)) =
             Some (V_Signature
                     (Sign (PaymentConfirmation_Hash kernelID (m_Pk widPeer) v)
                        (DeriveKey (get_SbbsKdf kk) (m_OwnID waddr))))"
    by (simp add: ConfirmInvitation_params_def Let_def GetParameter_SetParameter
        PaymentConfirmation_Sign_def)
qed

text \<open>
  Two instances: the receiver's record of the two-party example, without and with a
  stored signature.
\<close>

theorem confirmation_carries_payment_proof_witness:
  "GetParameter TxParameterID_PaymentConfirmation
     (ConfirmInvitation_params receiver_env \<lparr>get_SbbsKdf = 1\<rparr> False receiver_params) =
   Some (V_Signature (Sign (PaymentConfirmation_Hash 42 (Point 11) 1000000) (DeriveKey 1 5))) \<and>
   GetParameter TxParameterID_PaymentConfirmation
     (ConfirmInvitation_params receiver_env \<lparr>get_SbbsKdf = 1\<rparr> False
        (receiver_params\<lparr>PaymentConfirmation := Some (Signature 9)\<rparr>)) =
   Some (V_Signature (Signature 9))"
proof -
  have a: "IsSender (params (new_tx receiver_params)) = Some False"
    by (simp add: new_tx_def receiver_params_def)
  have b: "PaymentConfirmation (params (new_tx receiver_params)) = None \<and>
           PeerID (params (new_tx receiver_params)) = Some alice \<and>
           MyID (params (new_tx receiver_params)) = Some bob \<and>
           KernelID (params (new_tx receiver_params)) = Some 42 \<and>
           Amount (params (new_tx receiver_params)) = Some 1000000 \<and>
           getAddress (m_WalletDB receiver_env) bob = Some (own_address bob 5) \<and>
           isOwn (own_address bob 5)"
    by (simp add: new_tx_def receiver_params_def params_none_def receiver_env_def
        getAddress_def isOwn_def own_address_def)
  have c: "IsSender (params (new_tx (receiver_params\<lparr>PaymentConfirmation := Some (Signature 9)\<rparr>)))
             = Some False"
    by (simp add: new_tx_def receiver_params_def)
  have d: "PaymentConfirmation
             (params (new_tx (receiver_params\<lparr>PaymentConfirmation := Some (Signature 9)\<rparr>)))
             = Some (Signature 9)"
    by (simp add: new_tx_def)
  from confirmation_carries_payment_proof [OF a, of receiver_env "\<lparr>get_SbbsKdf = 1\<rparr>"] b
  have "GetParameter TxParameterID_PaymentConfirmation
     (ConfirmInvitation_params receiver_env \<lparr>get_SbbsKdf = 1\<rparr> False
        (params (new_tx receiver_params))) =
     Some (V_Signature (Sign (PaymentConfirmation_Hash 42 (m_Pk alice) 1000000)
                          (DeriveKey (get_SbbsKdf \<lparr>get_SbbsKdf = 1\<rparr>) (m_OwnID (own_address bob 5)))))"
    by blast
  moreover
  from confirmation_carries_payment_proof [OF c, of receiver_env "\<lparr>get_SbbsKdf = 1\<rparr>"] d
  have "GetParameter TxParameterID_PaymentConfirmation
     (ConfirmInvitation_params receiver_env \<lparr>get_SbbsKdf = 1\<rparr> False
        (params (new_tx (receiver_params\<lparr>PaymentConfirmation := Some (Signature 9)\<rparr>)))) =
     Some (V_Signature (Signature 9))"
    by blast
  ultimately show ?thesis
    by (simp add: new_tx_def alice_def own_address_def)
qed

text \<open>
  Against claim C5 as stated: a receiver's record of a non-self transfer whose \<^verbatim>\<open>MyID\<close>
  is an owned address and whose amount is stored as \<^verbatim>\<open>AmountList\<close> only (the update accepts
  such a record). The guard on the four parameters fails, and the confirmation goes out
  without a payment proof.
\<close>

theorem confirmation_without_payment_proof:
  "IsSender (params (new_tx amount_list_params)) = Some False \<and>
   IsSelfTx (m_WalletDB receiver_env) (new_tx amount_list_params) = Inr False \<and>
   map_option isOwn (getAddress (m_WalletDB receiver_env) bob) = Some True \<and>
   MyID (params (new_tx amount_list_params)) = Some bob \<and>
   ConfirmInvitation receiver_env \<lparr>get_SbbsKdf = 1\<rparr> (new_tx amount_list_params) =
     Inr \<lparr>params = amount_list_params, m_TxBuilder = False,
          calls = [Call_SendTxParameters
                     [(TxParameterID_PeerProtoVersion, V_uint32 4),
                      (TxParameterID_PeerPublicExcess, V_Point (Point 1)),
                      (TxParameterID_PeerSignature, V_Scalar (Scalar 3)),
                      (TxParameterID_PeerPublicNonce, V_Point (Point 2)),
                      (TxParameterID_PeerMaxHeight, V_Height 250),
                      (TxParameterID_PeerInputs, V_Coins []),
                      (TxParameterID_PeerOutputs, V_Coins [7]),
                      (TxParameterID_PeerOffset, V_Scalar (Scalar 4))]]\<rparr>"
  by (simp add: ConfirmInvitation_def ConfirmInvitation_params_def SendTxParameters_def
      SetParameters_def Let_def IsSelfTx_def call_def getAddress_def isOwn_def own_address_def
      receiver_env_def builder_fresh_def new_tx_def amount_list_params_def receiver_params_def
      params_none_def alice_def bob_def)

section \<open>The invited participant\<close>

text \<open>
  Claim C6: on the receiver path from state Initial, once \<^verbatim>\<open>SignReceiver\<close> is done, the
  update sends the confirmation; if a \<^verbatim>\<open>PeerProtoVersion\<close> parameter is stored it then sets
  \<^verbatim>\<open>TransactionRegistered\<close> to Ok and the state to KernelConfirmation and asks for the proof
  of the kernel id; otherwise it sets the state to InvitationConfirmation and asks for
  nothing. The parameters and the calls are given in full.
\<close>

theorem receiver_reply:
  assumes "IsSender (params tx) = Some False"
    and "IsSelfTx (m_WalletDB env) tx = Inr False"
    and "GetState tx = State_Initial"
    and "AmountList (params tx) \<noteq> None \<or> Amount (params tx) \<noteq> None"
    and "m_TxBuilder tx \<or> Fee (params tx) \<noteq> None"
    and "m_KeyKeeper env = Some kk"
    and "\<not> CreateInputs (builder env)"
    and "\<not> CreateOutputs (builder env)"
    and "GetPeerPublicExcessAndNonce (builder env)"
    and "UpdateMaxHeight (builder env)"
    and "\<not> GetPeerSignature (builder env)"
    and "\<not> SignReceiver (builder env)"
  shows "fst (UpdateImpl env tx) = Returned \<and>
         (PeerProtoVersion (params tx) \<noteq> None \<longrightarrow>
            params (snd (UpdateImpl env tx)) =
              (params tx)\<lparr>Status := Some TxStatus_Registering,
                           TransactionRegistered := Some proto_Ok,
                           State := Some State_KernelConfirmation\<rparr> \<and>
            calls (snd (UpdateImpl env tx)) =
              calls tx @ initial_calls (builder env) False False State_Initial @
              [Call_CreateInputs, Call_CreateOutputs, Call_UpdateMaxHeight, Call_CreateKernel,
               Call_SignReceiver, Call_UpdateTxDescription TxStatus_Registering,
               Call_SendTxParameters
                 (ConfirmInvitation_params env kk False
                    ((params tx)\<lparr>Status := Some TxStatus_Registering\<rparr>)),
               Call_ConfirmKernel (GetKernelID (builder env))]) \<and>
         (PeerProtoVersion (params tx) = None \<longrightarrow>
            params (snd (UpdateImpl env tx)) =
              (params tx)\<lparr>Status := Some TxStatus_Registering,
                           State := Some State_InvitationConfirmation\<rparr> \<and>
            calls (snd (UpdateImpl env tx)) =
              calls tx @ initial_calls (builder env) False False State_Initial @
              [Call_CreateInputs, Call_CreateOutputs, Call_UpdateMaxHeight, Call_CreateKernel,
               Call_SignReceiver, Call_UpdateTxDescription TxStatus_Registering,
               Call_SendTxParameters
                 (ConfirmInvitation_params env kk False
                    ((params tx)\<lparr>Status := Some TxStatus_Registering\<rparr>))])"
proof (cases "PeerProtoVersion (params tx)")
  case None
  with assms show ?thesis
    by (simp add: UpdateImpl_def UpdateImpl_negotiate_def UpdateImpl_invited_def
        UpdateImpl_initial_eq Let_def ConfirmInvitation_eq UpdateTxDescription_def
        SetState_def SetParameter_TransactionRegistered_def call_def)
next
  case (Some nVer)
  with assms show ?thesis
    by (simp add: UpdateImpl_def UpdateImpl_negotiate_def UpdateImpl_invited_def
        UpdateImpl_initial_eq Let_def ConfirmInvitation_eq UpdateTxDescription_def
        SetState_def SetParameter_TransactionRegistered_def call_def)
qed

text \<open>
  Two instances: the receiver's record of the two-party example, with and without the
  peer's protocol version.
\<close>

theorem receiver_reply_witness:
  "params (snd (UpdateImpl receiver_env (new_tx receiver_params))) =
     receiver_params\<lparr>Status := Some TxStatus_Registering,
                      TransactionRegistered := Some proto_Ok,
                      State := Some State_KernelConfirmation\<rparr> \<and>
   params (snd (UpdateImpl receiver_env (new_tx (receiver_params\<lparr>PeerProtoVersion := None\<rparr>)))) =
     receiver_params\<lparr>PeerProtoVersion := None, Status := Some TxStatus_Registering,
                      State := Some State_InvitationConfirmation\<rparr>"
proof -
  let ?t1 = "new_tx receiver_params"
  let ?t2 = "new_tx (receiver_params\<lparr>PeerProtoVersion := None\<rparr>)"
  have e: "m_KeyKeeper receiver_env = Some \<lparr>get_SbbsKdf = 1\<rparr>"
    "\<not> CreateInputs (builder receiver_env)"
    "\<not> CreateOutputs (builder receiver_env)"
    "GetPeerPublicExcessAndNonce (builder receiver_env)"
    "UpdateMaxHeight (builder receiver_env)"
    "\<not> GetPeerSignature (builder receiver_env)"
    "\<not> SignReceiver (builder receiver_env)"
    by (simp_all add: example_defs)
  have h1: "IsSender (params ?t1) = Some False"
    "IsSelfTx (m_WalletDB receiver_env) ?t1 = Inr False"
    "GetState ?t1 = State_Initial"
    "AmountList (params ?t1) \<noteq> None \<or> Amount (params ?t1) \<noteq> None"
    "m_TxBuilder ?t1 \<or> Fee (params ?t1) \<noteq> None"
    by (simp_all add: example_defs IsSelfTx_def getAddress_def GetState_def)
  have h2: "IsSender (params ?t2) = Some False"
    "IsSelfTx (m_WalletDB receiver_env) ?t2 = Inr False"
    "GetState ?t2 = State_Initial"
    "AmountList (params ?t2) \<noteq> None \<or> Amount (params ?t2) \<noteq> None"
    "m_TxBuilder ?t2 \<or> Fee (params ?t2) \<noteq> None"
    by (simp_all add: example_defs IsSelfTx_def getAddress_def GetState_def)
  have i: "PeerProtoVersion (params ?t1) \<noteq> None" "PeerProtoVersion (params ?t2) = None"
    by (simp_all add: example_defs)
  from receiver_reply [OF h1 e] i(1)
  have "params (snd (UpdateImpl receiver_env ?t1)) =
          (params ?t1)\<lparr>Status := Some TxStatus_Registering,
                        TransactionRegistered := Some proto_Ok,
                        State := Some State_KernelConfirmation\<rparr>"
    by blast
  moreover
  from receiver_reply [OF h2 e] i(2)
  have "params (snd (UpdateImpl receiver_env ?t2)) =
          (params ?t2)\<lparr>Status := Some TxStatus_Registering,
                        State := Some State_InvitationConfirmation\<rparr>"
    by blast
  ultimately show ?thesis by (simp add: new_tx_def)
qed

section \<open>The invitation\<close>

text \<open>
  Claim C7: for a sender's record in state Initial of a two-party transfer, once
  \<^verbatim>\<open>SignSender(true)\<close> is done, the update hands exactly one message to the transport, the
  invitation with the ten parameters below (\<^verbatim>\<open>IsSender\<close> false among them), and sets the
  state to Invitation.
\<close>

theorem sender_invitation:
  assumes "IsSender (params tx) = Some True"
    and "IsSelfTx (m_WalletDB env) tx = Inr False"
    and "GetState tx = State_Initial"
    and "AmountList (params tx) \<noteq> None \<or> Amount (params tx) \<noteq> None"
    and "m_TxBuilder tx \<or> Fee (params tx) \<noteq> None"
    and "\<not> LoadKernel (builder env)"
    and "m_KeyKeeper env = Some kk"
    and "\<not> CreateInputs (builder env)"
    and "\<not> CreateOutputs (builder env)"
    and "\<not> GetPeerPublicExcessAndNonce (builder env)"
    and "\<not> SignSender (builder env) True"
  shows "fst (UpdateImpl env tx) = Returned \<and>
         sent (calls (snd (UpdateImpl env tx))) = sent (calls tx) @
           [[(TxParameterID_Amount, V_Amount (GetAmount (builder env))),
             (TxParameterID_Fee, V_Amount (GetFee (builder env))),
             (TxParameterID_MinHeight, V_Height (GetMinHeight (builder env))),
             (TxParameterID_Lifetime, V_Height (GetLifetime (builder env))),
             (TxParameterID_PeerMaxHeight, V_Height (GetMaxHeight (builder env))),
             (TxParameterID_IsSender, V_bool False),
             (TxParameterID_PeerProtoVersion, V_uint32 (s_ProtoVersion env)),
             (TxParameterID_PeerPublicExcess, V_Point (GetPublicExcess (builder env))),
             (TxParameterID_PeerPublicNonce, V_Point (GetPublicNonce (builder env))),
             (TxParameterID_AssetID, V_uint32 (GetAssetId (builder env)))]] \<and>
         State (params (snd (UpdateImpl env tx))) = Some State_Invitation"
  using assms
  by (simp add: UpdateImpl_def UpdateImpl_negotiate_def UpdateImpl_initial_eq Let_def
      SendInvitation_def SendTxParameters_def SetParameters_Nil SetParameters_Cons
      OnFailed_def SetState_def call_def sent_append sent_initial_calls
      split: option.splits)

text \<open>
  An instance: the sender's record of the two-party example.
\<close>

theorem sender_invitation_witness:
  "fst (UpdateImpl sender_env (new_tx sender_params)) = Returned \<and>
   sent (calls (snd (UpdateImpl sender_env (new_tx sender_params)))) =
     [[(TxParameterID_Amount, V_Amount 1000000),
       (TxParameterID_Fee, V_Amount 100),
       (TxParameterID_MinHeight, V_Height 10),
       (TxParameterID_Lifetime, V_Height 240),
       (TxParameterID_PeerMaxHeight, V_Height 250),
       (TxParameterID_IsSender, V_bool False),
       (TxParameterID_PeerProtoVersion, V_uint32 4),
       (TxParameterID_PeerPublicExcess, V_Point (Point 1)),
       (TxParameterID_PeerPublicNonce, V_Point (Point 2)),
       (TxParameterID_AssetID, V_uint32 0)]] \<and>
   State (params (snd (UpdateImpl sender_env (new_tx sender_params)))) = Some State_Invitation"
proof -
  let ?tx = "new_tx sender_params"
  have h: "IsSender (params ?tx) = Some True"
    "IsSelfTx (m_WalletDB sender_env) ?tx = Inr False"
    "GetState ?tx = State_Initial"
    "AmountList (params ?tx) \<noteq> None \<or> Amount (params ?tx) \<noteq> None"
    "m_TxBuilder ?tx \<or> Fee (params ?tx) \<noteq> None"
    "\<not> LoadKernel (builder sender_env)"
    "m_KeyKeeper sender_env = Some \<lparr>get_SbbsKdf = 2\<rparr>"
    "\<not> CreateInputs (builder sender_env)"
    "\<not> CreateOutputs (builder sender_env)"
    "\<not> GetPeerPublicExcessAndNonce (builder sender_env)"
    "\<not> SignSender (builder sender_env) True"
    by (simp_all add: example_defs IsSelfTx_def getAddress_def GetState_def)
  from sender_invitation [OF h] show ?thesis
    by (simp add: example_defs)
qed

section \<open>The address book on creation\<close>

text \<open>
  Claim C8: \<^verbatim>\<open>CheckAndCompleteParameters\<close> throws the address-expired exception exactly
  when the \<^verbatim>\<open>PeerID\<close> is found in the address book and the entry is owned and expired; and
  for a \<^verbatim>\<open>PeerID\<close> that is not in the address book it returns the parameters as they are
  and saves a new entry for that peer, labelled with the \<^verbatim>\<open>Message\<close> parameter when there
  is one.
\<close>

theorem CheckAndCompleteParameters_address_book:
  "(CheckAndCompleteParameters now db parameters = Inl AddressExpiredException \<longleftrightarrow>
      (\<exists>peerID receiverAddr.
         GetParameter_WalletID TxParameterID_PeerID parameters = Some peerID \<and>
         getAddress db peerID = Some receiverAddr \<and>
         isOwn receiverAddr \<and> isExpired receiverAddr)) \<and>
   (\<forall>peerID.
      GetParameter_WalletID TxParameterID_PeerID parameters = Some peerID \<and>
      getAddress db peerID = None \<longrightarrow>
      CheckAndCompleteParameters now db parameters =
        Inr (parameters,
             db(peerID \<mapsto>
                WalletAddress_default
                  \<lparr>m_walletID := peerID,
                   m_label :=
                     (case GetParameter_ByteBuffer TxParameterID_Message parameters of
                        Some message \<Rightarrow> message
                      | None \<Rightarrow> m_label WalletAddress_default),
                   m_createTime := now\<rparr>)))"
  by (auto simp add: CheckAndCompleteParameters_def saveAddress_def Let_def
      split: option.splits)

text \<open>
  Two instances: a first payment to Bob with a message, and a payment to an owned
  address that has expired.
\<close>

theorem CheckAndCompleteParameters_address_book_witness:
  "CheckAndCompleteParameters 100 Map.empty
     [(TxParameterID_PeerID, V_WalletID bob), (TxParameterID_Message, V_ByteBuffer ''rent'')] =
     Inr ([(TxParameterID_PeerID, V_WalletID bob), (TxParameterID_Message, V_ByteBuffer ''rent'')],
          [bob \<mapsto> \<lparr>m_walletID = bob, m_label = ''rent'', m_createTime = 100, m_OwnID = 0,
                     own = False, expired = False\<rparr>]) \<and>
   CheckAndCompleteParameters 100 [bob \<mapsto> (own_address bob 5)\<lparr>expired := True\<rparr>]
     [(TxParameterID_PeerID, V_WalletID bob)] = Inl AddressExpiredException"
proof -
  let ?ps = "[(TxParameterID_PeerID, V_WalletID bob), (TxParameterID_Message, V_ByteBuffer ''rent'')]"
  let ?db = "[bob \<mapsto> (own_address bob 5)\<lparr>expired := True\<rparr>]"
  have a: "GetParameter_WalletID TxParameterID_PeerID ?ps = Some bob \<and>
           getAddress Map.empty bob = None"
    by (simp add: GetParameter_WalletID_def GetParameter_def getAddress_def)
  have b: "GetParameter_ByteBuffer TxParameterID_Message ?ps = Some ''rent''"
    by (simp add: GetParameter_ByteBuffer_def GetParameter_def)
  have c: "\<exists>peerID receiverAddr.
         GetParameter_WalletID TxParameterID_PeerID [(TxParameterID_PeerID, V_WalletID bob)]
           = Some peerID \<and>
         getAddress ?db peerID = Some receiverAddr \<and>
         isOwn receiverAddr \<and> isExpired receiverAddr"
    by (simp add: GetParameter_WalletID_def GetParameter_def getAddress_def isOwn_def
        isExpired_def own_address_def)
  from CheckAndCompleteParameters_address_book [of 100 Map.empty ?ps] a b
  have "CheckAndCompleteParameters 100 Map.empty ?ps =
          Inr (?ps, Map.empty(bob \<mapsto> WalletAddress_default
                  \<lparr>m_walletID := bob, m_label := ''rent'', m_createTime := 100\<rparr>))"
    by simp
  moreover
  from CheckAndCompleteParameters_address_book
         [of 100 ?db "[(TxParameterID_PeerID, V_WalletID bob)]"] c
  have "CheckAndCompleteParameters 100 ?db [(TxParameterID_PeerID, V_WalletID bob)] =
          Inl AddressExpiredException"
    by blast
  ultimately show ?thesis by (simp add: WalletAddress_default_def)
qed

section \<open>Synchronous and asynchronous shapes\<close>

text \<open>
  Claim C9: when the asynchronous shape calls the handler once, the default synchronous
  shape returns the status of that call, and the structure as filled unless the status is
  InProgress; the default asynchronous shape calls the handler exactly once, at once, with
  the status and the structure of the synchronous shape; and the synchronous shape derived
  from the asynchronous shape derived from a synchronous shape is that shape again,
  whenever its status is not InProgress.
\<close>

theorem sync_and_async_shapes_agree:
  "(\<forall>at_once later m' st.
      InvokeAsync m = Some (at_once, later) \<and> at_once @ later = [(m', st)] \<longrightarrow>
      InvokeSync_default InvokeAsync moved m =
        Some (st, if st \<noteq> Status_InProgress then m' else moved m)) \<and>
   (\<forall>res m'.
      InvokeSync m = Some (res, m') \<longrightarrow>
      InvokeAsync_default InvokeSync m = Some ([(m', res)], []) \<and>
      (res \<noteq> Status_InProgress \<longrightarrow>
       InvokeSync_default (InvokeAsync_default InvokeSync) moved m = InvokeSync m))"
proof (intro conjI allI impI)
  fix at_once later m' st
  assume "InvokeAsync m = Some (at_once, later) \<and> at_once @ later = [(m', st)]"
  then show "InvokeSync_default InvokeAsync moved m =
               Some (st, if st \<noteq> Status_InProgress then m' else moved m)"
    by (simp add: InvokeSync_default_def InvokeSyncInternal_once)
next
  fix res m'
  assume "InvokeSync m = Some (res, m')"
  then show "InvokeAsync_default InvokeSync m = Some ([(m', res)], [])"
    by (simp add: InvokeAsync_default_def)
next
  fix res m'
  assume s: "InvokeSync m = Some (res, m')" and r: "res \<noteq> Status_InProgress"
  from s have "InvokeAsync_default InvokeSync m = Some ([(m', res)], [])"
    by (simp add: InvokeAsync_default_def)
  from InvokeSyncInternal_once
         [where InvokeAsync = "InvokeAsync_default InvokeSync" and m = m
            and at_once = "[(m', res)]" and later = "[]" and m' = m' and st = res
            and moved = moved] this r s
  show "InvokeSync_default (InvokeAsync_default InvokeSync) moved m = InvokeSync m"
    by (simp add: InvokeSync_default_def)
qed

text \<open>
  Instances on a structure that is a number: an asynchronous shape that completes later
  with Ok, and a synchronous shape that returns UserAbort.
\<close>

theorem sync_and_async_shapes_agree_witness:
  "InvokeSync_default (\<lambda>m::nat. Some ([], [(m + 1, Status_Ok)])) (\<lambda>m. 0) 5 = Some (Status_Ok, 6) \<and>
   InvokeAsync_default (\<lambda>m::nat. Some (Status_UserAbort, m)) 5 = Some ([(5, Status_UserAbort)], []) \<and>
   InvokeSync_default (InvokeAsync_default (\<lambda>m::nat. Some (Status_UserAbort, m))) (\<lambda>m. 0) 5 =
     Some (Status_UserAbort, 5)"
proof -
  have a: "(\<lambda>m::nat. Some ([], [(m + 1, Status_Ok)])) 5 = Some ([], [(6, Status_Ok)]) \<and>
           [] @ [(6::nat, Status_Ok)] = [(6, Status_Ok)]"
    by simp
  have b: "(\<lambda>m::nat. Some (Status_UserAbort, m)) 5 = Some (Status_UserAbort, 5)"
    by simp
  have c: "Status_UserAbort \<noteq> Status_InProgress" by simp
  from sync_and_async_shapes_agree
         [of "\<lambda>m::nat. Some ([], [(m + 1, Status_Ok)])" 5 "\<lambda>m. 0"
             "\<lambda>m::nat. Some (Status_UserAbort, m)"] a b c
  show ?thesis by (simp del: One_nat_def)
qed

section \<open>The public wallet\<close>

text \<open>
  Claim C10: when no signed kernel is loaded yet and the key keeper is absent, the update
  leaves the parameters of the record as they are and makes no call at all (no message,
  no builder or gateway call); it returns normally whenever the mandatory parameters it
  reads on the way are there, and throws on a missing one, with the same frame.
\<close>

theorem UpdateImpl_public_wallet:
  assumes "m_KeyKeeper env = None"
    and "IsSender (params tx) = Some isSender"
    and "no_signed_kernel (builder env) isSender (GetState tx)"
  shows "params (snd (UpdateImpl env tx)) = params tx \<and>
         calls (snd (UpdateImpl env tx)) = calls tx \<and>
         (PeerID (params tx) \<noteq> None \<and>
          (AmountList (params tx) \<noteq> None \<or> Amount (params tx) \<noteq> None) \<and>
          (m_TxBuilder tx \<or> Fee (params tx) \<noteq> None) \<longrightarrow>
          fst (UpdateImpl env tx) = Returned)"
  using assms
  by (auto simp add: UpdateImpl_def IsSelfTx_def no_signed_kernel_def Let_def
      split: option.splits sum.splits)

theorem UpdateImpl_public_wallet_witness:
  "UpdateImpl (sender_env\<lparr>m_KeyKeeper := None\<rparr>) (new_tx sender_params) =
     (Returned, (new_tx sender_params)\<lparr>m_TxBuilder := True\<rparr>)"
proof -
  have 1: "m_KeyKeeper (sender_env\<lparr>m_KeyKeeper := None\<rparr>) = None" by simp
  have 2: "IsSender (params (new_tx sender_params)) = Some True"
    by (simp add: new_tx_def sender_params_def)
  have 3: "no_signed_kernel (builder (sender_env\<lparr>m_KeyKeeper := None\<rparr>)) True
             (GetState (new_tx sender_params))"
    by (simp add: no_signed_kernel_def sender_env_def builder_fresh_def)
  have 4: "m_TxBuilder (snd (UpdateImpl (sender_env\<lparr>m_KeyKeeper := None\<rparr>)
             (new_tx sender_params)))"
    by (simp add: UpdateImpl_def IsSelfTx_def Let_def new_tx_def sender_params_def
        params_none_def sender_env_def builder_fresh_def getAddress_def alice_def bob_def)
  from UpdateImpl_public_wallet [OF 1 2 3] 4
  show ?thesis
    by (cases "UpdateImpl (sender_env\<lparr>m_KeyKeeper := None\<rparr>) (new_tx sender_params)")
       (simp add: new_tx_def sender_params_def params_none_def)
qed

end
